theory Spec2Isabelle
  imports Main
begin

section \<open>Values exchanged with the remote service\<close>

text \<open>
  The tool arguments and the bodies returned by \<^verbatim>\<open>response.json()\<close> are Python values
  built from JSON: \<^verbatim>\<open>None\<close>, booleans, integers, strings, lists and dictionaries.
  A dictionary keeps its insertion order, so it is an association list (its keys are
  distinct in Python; a lookup takes the binding \<open>map_of\<close> finds). Text is ASCII text
  over \<open>char\<close>; floating point numbers are not part of the model.
\<close>

datatype json =
    JNull
  | JBool bool
  | JInt int
  | JStr string
  | JList "json list"
  | JObj "(string \<times> json) list"

text \<open>The exceptions the dispatch can meet, each with the text \<^verbatim>\<open>str(e)\<close> gives.
  \<open>RemoteError\<close> stands for what \<^verbatim>\<open>client.get\<close>, \<^verbatim>\<open>raise_for_status\<close> and
  \<^verbatim>\<open>response.json\<close> raise (transport failure, non-2xx status, undecodable body); it
  carries its message.\<close>

datatype exn =
    KeyError string
  | AttributeError string
  | TypeError string
  | RemoteError string

record request =
  url :: string
  params :: "(string \<times> json) list option"

text \<open>The fields \<^verbatim>\<open>type\<close> and \<^verbatim>\<open>text\<close> of \<^verbatim>\<open>TextContent\<close>.\<close>

record TextContent =
  tc_type :: string
  tc_text :: string

type_synonym remote = "request \<Rightarrow> exn + json"

type_synonym 'a io = "request list \<times> (exn + 'a)"

section \<open>Python string operations\<close>

definition upper_char :: "char \<Rightarrow> char" where
  "upper_char c =
     (let n = (of_char c :: nat) in if 97 \<le> n \<and> n \<le> 122 then char_of (n - 32) else c)"

definition lower_char :: "char \<Rightarrow> char" where
  "lower_char c =
     (let n = (of_char c :: nat) in if 65 \<le> n \<and> n \<le> 90 then char_of (n + 32) else c)"

definition upper :: "string \<Rightarrow> string" where
  "upper s = map upper_char s"

definition lower :: "string \<Rightarrow> string" where
  "lower s = map lower_char s"

text \<open>\<^verbatim>\<open>s.replace(old, new)\<close> for a pattern \<open>old\<close> of one character.\<close>

definition replace :: "char \<Rightarrow> string \<Rightarrow> string \<Rightarrow> string" where
  "replace old new s = concat (map (\<lambda>c. if c = old then new else [c]) s)"

text \<open>\<^verbatim>\<open>needle in s\<close> on strings: \<open>needle\<close> occurs as a contiguous piece of \<open>s\<close>.\<close>

fun contains :: "string \<Rightarrow> string \<Rightarrow> bool" where
  "contains needle [] = (needle = [])"
| "contains needle (c # cs) =
     (take (length needle) (c # cs) = needle \<or> contains needle cs)"

definition digit_char :: "nat \<Rightarrow> char" where
  "digit_char d = char_of (48 + d)"

fun str_nat :: "nat \<Rightarrow> string" where
  "str_nat n = (if n < 10 then [digit_char n] else str_nat (n div 10) @ [digit_char (n mod 10)])"

declare str_nat.simps [simp del]

definition str_int :: "int \<Rightarrow> string" where
  "str_int i = (if i < 0 then CHR ''-'' # str_nat (nat (- i)) else str_nat (nat i))"

definition hex_char :: "nat \<Rightarrow> char" where
  "hex_char d = (if d < 10 then char_of (48 + d) else char_of (87 + d))"

definition hex2 :: "char \<Rightarrow> string" where
  "hex2 c = (let n = (of_char c :: nat) in [hex_char (n div 16), hex_char (n mod 16)])"

definition dquote :: char where
  "dquote = CHR 0x22"

definition squote :: char where
  "squote = CHR 0x27"

definition backslash :: char where
  "backslash = CHR 0x5C"

definition printable :: "char \<Rightarrow> bool" where
  "printable c = (let n = (of_char c :: nat) in 32 \<le> n \<and> n \<le> 126)"

text \<open>\<^verbatim>\<open>repr\<close> of a string: single quotes, unless the string has a single quote and no
  double quote.\<close>

definition repr_char :: "char \<Rightarrow> char \<Rightarrow> string" where
  "repr_char q c =
     (if c = q \<or> c = backslash then [backslash, c]
      else if c = CHR 0x09 then [backslash, CHR ''t'']
      else if c = CHR 0x0A then [backslash, CHR ''n'']
      else if c = CHR 0x0D then [backslash, CHR ''r'']
      else if printable c then [c]
      else [backslash, CHR ''x''] @ hex2 c)"

definition repr_str :: "string \<Rightarrow> string" where
  "repr_str s =
     (let q = (if squote \<in> set s \<and> dquote \<notin> set s then dquote else squote)
      in [q] @ concat (map (repr_char q) s) @ [q])"

text \<open>\<^verbatim>\<open>sep.join(parts)\<close>.\<close>

fun join :: "string \<Rightarrow> string list \<Rightarrow> string" where
  "join sep [] = []"
| "join sep [x] = x"
| "join sep (x # y # ys) = x @ sep @ join sep (y # ys)"

fun repr :: "json \<Rightarrow> string" where
  "repr JNull = ''None''"
| "repr (JBool b) = (if b then ''True'' else ''False'')"
| "repr (JInt i) = str_int i"
| "repr (JStr s) = repr_str s"
| "repr (JList xs) = ''['' @ join '', '' (map repr xs) @ '']''"
| "repr (JObj kvs) =
     ''{'' @ join '', '' (map (\<lambda>(k, v). repr_str k @ '': '' @ repr v) kvs) @ ''}''"

text \<open>\<^verbatim>\<open>str(v)\<close>, which is also what an f-string field \<^verbatim>\<open>{v}\<close> prints.\<close>

definition str :: "json \<Rightarrow> string" where
  "str v = (case v of JStr s \<Rightarrow> s | _ \<Rightarrow> repr v)"

definition type_name :: "json \<Rightarrow> string" where
  "type_name v =
     (case v of JNull \<Rightarrow> ''NoneType'' | JBool _ \<Rightarrow> ''bool'' | JInt _ \<Rightarrow> ''int''
      | JStr _ \<Rightarrow> ''str'' | JList _ \<Rightarrow> ''list'' | JObj _ \<Rightarrow> ''dict'')"

definition truthy :: "json \<Rightarrow> bool" where
  "truthy v =
     (case v of JNull \<Rightarrow> False | JBool b \<Rightarrow> b | JInt i \<Rightarrow> i \<noteq> 0
      | JStr s \<Rightarrow> s \<noteq> [] | JList xs \<Rightarrow> xs \<noteq> [] | JObj kvs \<Rightarrow> kvs \<noteq> [])"

definition exn_str :: "exn \<Rightarrow> string" where
  "exn_str e =
     (case e of KeyError k \<Rightarrow> repr_str k | AttributeError m \<Rightarrow> m
      | TypeError m \<Rightarrow> m | RemoteError m \<Rightarrow> m)"

section \<open>\<^verbatim>\<open>json.dumps(v, indent=2)\<close>\<close>

definition hex4 :: "char \<Rightarrow> string" where
  "hex4 c = ''00'' @ hex2 c"

definition escape_char :: "char \<Rightarrow> string" where
  "escape_char c =
     (if c = dquote \<or> c = backslash then [backslash, c]
      else if c = CHR 0x0A then [backslash, CHR ''n'']
      else if c = CHR 0x0D then [backslash, CHR ''r'']
      else if c = CHR 0x09 then [backslash, CHR ''t'']
      else if c = CHR 0x08 then [backslash, CHR ''b'']
      else if c = CHR 0x0C then [backslash, CHR ''f'']
      else if printable c then [c]
      else [backslash, CHR ''u''] @ hex4 c)"

definition encode_str :: "string \<Rightarrow> string" where
  "encode_str s = [dquote] @ concat (map escape_char s) @ [dquote]"

definition newline_indent :: "nat \<Rightarrow> string" where
  "newline_indent level = CHR 0x0A # replicate (2 * level) CHR '' ''"

fun dumps_at :: "nat \<Rightarrow> json \<Rightarrow> string" where
  "dumps_at level JNull = ''null''"
| "dumps_at level (JBool b) = (if b then ''true'' else ''false'')"
| "dumps_at level (JInt i) = str_int i"
| "dumps_at level (JStr s) = encode_str s"
| "dumps_at level (JList xs) =
     (if xs = [] then ''[]''
      else ''['' @ newline_indent (Suc level)
        @ join ('','' @ newline_indent (Suc level)) (map (dumps_at (Suc level)) xs)
        @ newline_indent level @ '']'')"
| "dumps_at level (JObj kvs) =
     (if kvs = [] then ''{}''
      else ''{'' @ newline_indent (Suc level)
        @ join ('','' @ newline_indent (Suc level))
            (map (\<lambda>(k, v). encode_str k @ '': '' @ dumps_at (Suc level) v) kvs)
        @ newline_indent level @ ''}'')"

definition dumps :: "json \<Rightarrow> string" where
  "dumps v = dumps_at 0 v"

section \<open>Effects: the requests sent, and exceptions\<close>

text \<open>
  A computation yields the requests it has sent, in order, and either the exception it
  raised or its value. The remote service is a function from the request to what
  \<^verbatim>\<open>client.get\<close>, \<^verbatim>\<open>raise_for_status\<close> and \<^verbatim>\<open>response.json\<close> make of its answer.
\<close>

definition ret :: "'a \<Rightarrow> 'a io" where
  "ret x = ([], Inr x)"

definition lift :: "exn + 'a \<Rightarrow> 'a io" where
  "lift r = ([], r)"

definition io_bind :: "'a io \<Rightarrow> ('a \<Rightarrow> 'b io) \<Rightarrow> 'b io" where
  "io_bind m f =
     (case m of
        (t, Inl e) \<Rightarrow> (t, Inl e)
      | (t, Inr x) \<Rightarrow> (case f x of (t', r) \<Rightarrow> (t @ t', r)))"

definition sum_bind :: "exn + 'a \<Rightarrow> ('a \<Rightarrow> exn + 'b) \<Rightarrow> exn + 'b" where
  "sum_bind m f = (case m of Inl e \<Rightarrow> Inl e | Inr x \<Rightarrow> f x)"

definition http_get :: "remote \<Rightarrow> request \<Rightarrow> json io" where
  "http_get remote req = ([req], remote req)"

section \<open>Python operations that can raise\<close>

definition attr_error :: "json \<Rightarrow> string \<Rightarrow> exn" where
  "attr_error v name =
     AttributeError ([squote] @ type_name v @ [squote] @ '' object has no attribute ''
       @ [squote] @ name @ [squote])"

text \<open>\<^verbatim>\<open>arguments[key]\<close>.\<close>

definition subscript :: "(string \<rightharpoonup> json) \<Rightarrow> string \<Rightarrow> exn + json" where
  "subscript arguments key =
     (case arguments key of None \<Rightarrow> Inl (KeyError key) | Some v \<Rightarrow> Inr v)"

text \<open>\<^verbatim>\<open>arguments.get(key, default)\<close>.\<close>

definition arg_get :: "(string \<rightharpoonup> json) \<Rightarrow> string \<Rightarrow> json \<Rightarrow> json" where
  "arg_get arguments key dflt = (case arguments key of None \<Rightarrow> dflt | Some v \<Rightarrow> v)"

text \<open>\<^verbatim>\<open>v.get(key, default)\<close> on a value of the remote service.\<close>

definition get :: "json \<Rightarrow> string \<Rightarrow> json \<Rightarrow> exn + json" where
  "get v key dflt =
     (case v of
        JObj kvs \<Rightarrow> Inr (case map_of kvs key of None \<Rightarrow> dflt | Some x \<Rightarrow> x)
      | _ \<Rightarrow> Inl (attr_error v ''get''))"

definition str_upper :: "json \<Rightarrow> exn + string" where
  "str_upper v = (case v of JStr s \<Rightarrow> Inr (upper s) | _ \<Rightarrow> Inl (attr_error v ''upper''))"

definition str_lower :: "json \<Rightarrow> exn + string" where
  "str_lower v = (case v of JStr s \<Rightarrow> Inr (lower s) | _ \<Rightarrow> Inl (attr_error v ''lower''))"

text \<open>What a \<^verbatim>\<open>for\<close> loop runs over: the items of a list, the keys of a dictionary,
  the characters of a string; anything else is not iterable.\<close>

definition iter :: "json \<Rightarrow> exn + json list" where
  "iter v =
     (case v of
        JList xs \<Rightarrow> Inr xs
      | JObj kvs \<Rightarrow> Inr (map (\<lambda>(k, _). JStr k) kvs)
      | JStr s \<Rightarrow> Inr (map (\<lambda>c. JStr [c]) s)
      | _ \<Rightarrow> Inl (TypeError ([squote] @ type_name v @ [squote] @ '' object is not iterable'')))"

section \<open>\<^verbatim>\<open>MunicodeClient\<close>\<close>

definition MUNICODE_API_BASE :: string where
  "MUNICODE_API_BASE = ''https://api.municode.com''"

definition MUNICODE_LIBRARY_BASE :: string where
  "MUNICODE_LIBRARY_BASE = ''https://library.municode.com''"

text \<open>Each method builds its URL and query parameters, sends one GET and returns the
  decoded body; \<^verbatim>\<open>get_client_content\<close> sends no query parameters.\<close>

definition states_request :: "string \<Rightarrow> request" where
  "states_request state_abbr =
     \<lparr>url = MUNICODE_API_BASE @ ''/States/abbr'',
      params = Some [(''stateAbbr'', JStr state_abbr)]\<rparr>"

definition get_states :: "remote \<Rightarrow> string \<Rightarrow> json io" where
  "get_states remote state_abbr = http_get remote (states_request state_abbr)"

definition clients_by_state_request :: "string \<Rightarrow> request" where
  "clients_by_state_request state_abbr =
     \<lparr>url = MUNICODE_API_BASE @ ''/Clients/stateAbbr'',
      params = Some [(''stateAbbr'', JStr state_abbr)]\<rparr>"

definition get_clients_by_state :: "remote \<Rightarrow> string \<Rightarrow> json io" where
  "get_clients_by_state remote state_abbr =
     http_get remote (clients_by_state_request state_abbr)"

definition client_by_name_request :: "json \<Rightarrow> string \<Rightarrow> request" where
  "client_by_name_request client_name state_abbr =
     \<lparr>url = MUNICODE_API_BASE @ ''/Clients/name'',
      params = Some [(''clientName'', client_name), (''stateAbbr'', JStr state_abbr)]\<rparr>"

definition get_client_by_name :: "remote \<Rightarrow> json \<Rightarrow> string \<Rightarrow> json io" where
  "get_client_by_name remote client_name state_abbr =
     http_get remote (client_by_name_request client_name state_abbr)"

definition client_content_request :: "json \<Rightarrow> request" where
  "client_content_request client_id =
     \<lparr>url = MUNICODE_API_BASE @ ''/ClientContent/'' @ str client_id, params = None\<rparr>"

definition get_client_content :: "remote \<Rightarrow> json \<Rightarrow> json io" where
  "get_client_content remote client_id = http_get remote (client_content_request client_id)"

definition toc_children_request :: "json \<Rightarrow> json \<Rightarrow> json \<Rightarrow> request" where
  "toc_children_request job_id product_id node_id =
     \<lparr>url = MUNICODE_API_BASE @ ''/codesToc/children'',
      params = Some [(''jobId'', job_id), (''productId'', product_id), (''nodeId'', node_id)]\<rparr>"

definition get_toc_children :: "remote \<Rightarrow> json \<Rightarrow> json \<Rightarrow> json \<Rightarrow> json io" where
  "get_toc_children remote job_id product_id node_id =
     http_get remote (toc_children_request job_id product_id node_id)"

definition codes_content_request :: "json \<Rightarrow> json \<Rightarrow> json \<Rightarrow> request" where
  "codes_content_request job_id product_id node_id =
     \<lparr>url = MUNICODE_API_BASE @ ''/CodesContent'',
      params = Some [(''jobId'', job_id), (''productId'', product_id), (''nodeId'', node_id)]\<rparr>"

definition get_codes_content :: "remote \<Rightarrow> json \<Rightarrow> json \<Rightarrow> json \<Rightarrow> json io" where
  "get_codes_content remote job_id product_id node_id =
     http_get remote (codes_content_request job_id product_id node_id)"

definition search_request ::
  "json \<Rightarrow> json \<Rightarrow> json \<Rightarrow> json \<Rightarrow> json \<Rightarrow> json \<Rightarrow> request" where
  "search_request client_id search_text page_num page_size titles_only is_advanced =
     \<lparr>url = MUNICODE_API_BASE @ ''/search'',
      params = Some
        [(''clientId'', client_id),
         (''searchText'', search_text),
         (''pageNum'', page_num),
         (''pageSize'', page_size),
         (''titlesOnly'', titles_only),
         (''isAdvanced'', is_advanced),
         (''isAutocomplete'', JBool False),
         (''mode'', JStr ''standard''),
         (''sort'', JInt 0),
         (''fragmentSize'', JInt 200),
         (''contentTypeId'', JStr []),
         (''stateId'', JInt 0)]\<rparr>"

definition search_munidocs ::
  "remote \<Rightarrow> json \<Rightarrow> json \<Rightarrow> json \<Rightarrow> json \<Rightarrow> json \<Rightarrow> json \<Rightarrow> json io" where
  "search_munidocs remote client_id search_text page_num page_size titles_only is_advanced =
     http_get remote
       (search_request client_id search_text page_num page_size titles_only is_advanced)"

section \<open>\<^verbatim>\<open>handle_call_tool\<close>\<close>

definition text_content :: "string \<Rightarrow> TextContent" where
  "text_content s = \<lparr>tc_type = ''text'', tc_text = s\<rparr>"

definition tool_names :: "string list" where
  "tool_names =
     [''get_states_info'', ''list_municipalities'', ''get_municipality_info'',
      ''get_code_structure'', ''get_code_section'', ''search_municipal_codes'',
      ''get_municipality_url'']"

subsection \<open>\<^verbatim>\<open>get_states_info\<close>\<close>

definition branch_get_states_info :: "remote \<Rightarrow> (string \<rightharpoonup> json) \<Rightarrow> TextContent list io" where
  "branch_get_states_info remote arguments =
     io_bind (lift (sum_bind (subscript arguments ''state_abbr'') str_upper)) (\<lambda>state_abbr.
     io_bind (get_states remote state_abbr) (\<lambda>result.
     ret [text_content (dumps result)]))"

subsection \<open>\<^verbatim>\<open>list_municipalities\<close>\<close>

definition format_client :: "json \<Rightarrow> exn + json" where
  "format_client client =
     sum_bind (get client ''ClientName'' (JStr ''Unknown'')) (\<lambda>name.
     sum_bind (get client ''ClientID'' JNull) (\<lambda>ident.
     sum_bind (get client ''PopRangeId'' JNull) (\<lambda>population_range.
     sum_bind (get client ''ClassificationId'' JNull) (\<lambda>classification.
     sum_bind (get client ''Website'' JNull) (\<lambda>website.
     sum_bind (get client ''City'' JNull) (\<lambda>city.
     sum_bind (get client ''ZipCode'' JNull) (\<lambda>zip_code.
     Inr (JObj [(''name'', name), (''id'', ident), (''population_range'', population_range),
                (''classification'', classification), (''website'', website),
                (''city'', city), (''zip_code'', zip_code)]))))))))"

fun format_clients :: "json list \<Rightarrow> json list \<Rightarrow> exn + json list" where
  "format_clients formatted_clients [] = Inr formatted_clients"
| "format_clients formatted_clients (client # clients) =
     sum_bind (format_client client) (\<lambda>c.
     format_clients (formatted_clients @ [c]) clients)"

definition branch_list_municipalities ::
  "remote \<Rightarrow> (string \<rightharpoonup> json) \<Rightarrow> TextContent list io" where
  "branch_list_municipalities remote arguments =
     io_bind (lift (sum_bind (subscript arguments ''state_abbr'') str_upper)) (\<lambda>state_abbr.
     io_bind (get_clients_by_state remote state_abbr) (\<lambda>clients.
     io_bind (lift (sum_bind (iter clients) (format_clients []))) (\<lambda>formatted_clients.
     ret [text_content
            (''Found '' @ str_nat (length formatted_clients) @ '' municipalities in ''
             @ state_abbr @ '':\<newline>\<newline>'' @ dumps (JList formatted_clients))])))"

subsection \<open>\<^verbatim>\<open>get_municipality_info\<close>\<close>

definition branch_get_municipality_info ::
  "remote \<Rightarrow> (string \<rightharpoonup> json) \<Rightarrow> TextContent list io" where
  "branch_get_municipality_info remote arguments =
     io_bind (lift (subscript arguments ''municipality_name'')) (\<lambda>municipality_name.
     io_bind (lift (sum_bind (subscript arguments ''state_abbr'') str_upper)) (\<lambda>state_abbr.
     io_bind (get_client_by_name remote municipality_name state_abbr) (\<lambda>client_info.
     io_bind (lift (get client_info ''ClientID'' JNull)) (\<lambda>client_id.
     io_bind
       (if truthy client_id then
          io_bind (get_client_content remote client_id) (\<lambda>client_content.
          ret (JObj [(''client_info'', client_info), (''available_products'', client_content)]))
        else ret (JObj [(''client_info'', client_info)])) (\<lambda>result.
     ret [text_content (dumps result)])))))"

subsection \<open>The product loop of \<^verbatim>\<open>get_code_structure\<close> and \<^verbatim>\<open>get_code_section\<close>\<close>

text \<open>The loop leaves \<^verbatim>\<open>code_product\<close> at \<^verbatim>\<open>None\<close> unless it breaks at a product.\<close>

fun find_code_product :: "json list \<Rightarrow> exn + json option" where
  "find_code_product [] = Inr None"
| "find_code_product (product # products) =
     sum_bind (get product ''ProductName'' (JStr [])) (\<lambda>product_name.
     sum_bind (str_lower product_name) (\<lambda>lowered.
     if contains ''code'' lowered then Inr (Some product)
     else find_code_product products))"

definition not_found_text :: "json \<Rightarrow> string \<Rightarrow> string" where
  "not_found_text municipality_name state_abbr =
     ''Municipality '' @ [squote] @ str municipality_name @ [squote] @ '' not found in ''
     @ state_abbr"

definition no_code_text :: string where
  "no_code_text = ''No code of ordinances found for this municipality''"

subsection \<open>\<^verbatim>\<open>get_code_structure\<close>\<close>

definition branch_get_code_structure ::
  "remote \<Rightarrow> (string \<rightharpoonup> json) \<Rightarrow> TextContent list io" where
  "branch_get_code_structure remote arguments =
     io_bind (lift (subscript arguments ''municipality_name'')) (\<lambda>municipality_name.
     io_bind (lift (sum_bind (subscript arguments ''state_abbr'') str_upper)) (\<lambda>state_abbr.
     io_bind (ret (arg_get arguments ''node_id'' (JStr ''10121''))) (\<lambda>node_id.
     io_bind (get_client_by_name remote municipality_name state_abbr) (\<lambda>client_info.
     io_bind (lift (get client_info ''ClientID'' JNull)) (\<lambda>client_id.
     if \<not> truthy client_id then
       ret [text_content (not_found_text municipality_name state_abbr)]
     else
     io_bind (get_client_content remote client_id) (\<lambda>client_content.
     io_bind (lift (sum_bind (iter client_content) find_code_product)) (\<lambda>code_product.
     case code_product of
       None \<Rightarrow> ret [text_content no_code_text]
     | Some product \<Rightarrow>
     if \<not> truthy product then ret [text_content no_code_text]
     else
     io_bind (lift (get product ''Id'' JNull)) (\<lambda>job_id.
     io_bind (lift (get product ''ProductID'' JNull)) (\<lambda>product_id.
     io_bind (get_toc_children remote job_id product_id node_id) (\<lambda>toc.
     ret [text_content
            (''Code structure for '' @ str municipality_name @ '', '' @ state_abbr
             @ '':\<newline>\<newline>'' @ dumps toc)]))))))))))"

subsection \<open>\<^verbatim>\<open>get_code_section\<close>\<close>

definition branch_get_code_section ::
  "remote \<Rightarrow> (string \<rightharpoonup> json) \<Rightarrow> TextContent list io" where
  "branch_get_code_section remote arguments =
     io_bind (lift (subscript arguments ''municipality_name'')) (\<lambda>municipality_name.
     io_bind (lift (sum_bind (subscript arguments ''state_abbr'') str_upper)) (\<lambda>state_abbr.
     io_bind (lift (subscript arguments ''node_id'')) (\<lambda>node_id.
     io_bind (get_client_by_name remote municipality_name state_abbr) (\<lambda>client_info.
     io_bind (lift (get client_info ''ClientID'' JNull)) (\<lambda>client_id.
     if \<not> truthy client_id then
       ret [text_content (not_found_text municipality_name state_abbr)]
     else
     io_bind (get_client_content remote client_id) (\<lambda>client_content.
     io_bind (lift (sum_bind (iter client_content) find_code_product)) (\<lambda>code_product.
     case code_product of
       None \<Rightarrow> ret [text_content no_code_text]
     | Some product \<Rightarrow>
     if \<not> truthy product then ret [text_content no_code_text]
     else
     io_bind (lift (get product ''Id'' JNull)) (\<lambda>job_id.
     io_bind (lift (get product ''ProductID'' JNull)) (\<lambda>product_id.
     io_bind (get_codes_content remote job_id product_id node_id) (\<lambda>content.
     ret [text_content
            (''Content for node '' @ str node_id @ '' in '' @ str municipality_name @ '', ''
             @ state_abbr @ '':\<newline>\<newline>'' @ dumps content)]))))))))))"

subsection \<open>\<^verbatim>\<open>search_municipal_codes\<close>\<close>

text \<open>The call leaves \<^verbatim>\<open>is_advanced\<close> at its default, \<^verbatim>\<open>False\<close>.\<close>

definition branch_search_municipal_codes ::
  "remote \<Rightarrow> (string \<rightharpoonup> json) \<Rightarrow> TextContent list io" where
  "branch_search_municipal_codes remote arguments =
     io_bind (lift (subscript arguments ''municipality_name'')) (\<lambda>municipality_name.
     io_bind (lift (sum_bind (subscript arguments ''state_abbr'') str_upper)) (\<lambda>state_abbr.
     io_bind (lift (subscript arguments ''search_query'')) (\<lambda>search_query.
     io_bind (ret (arg_get arguments ''page_size'' (JInt 10))) (\<lambda>page_size.
     io_bind (ret (arg_get arguments ''page_number'' (JInt 1))) (\<lambda>page_number.
     io_bind (ret (arg_get arguments ''titles_only'' (JBool False))) (\<lambda>titles_only.
     io_bind (get_client_by_name remote municipality_name state_abbr) (\<lambda>client_info.
     io_bind (lift (get client_info ''ClientID'' JNull)) (\<lambda>client_id.
     if \<not> truthy client_id then
       ret [text_content (not_found_text municipality_name state_abbr)]
     else
     io_bind (search_munidocs remote client_id search_query page_number page_size titles_only
                (JBool False)) (\<lambda>search_results.
     ret [text_content
            (''Search results for '' @ [squote] @ str search_query @ [squote] @ '' in ''
             @ str municipality_name @ '', '' @ state_abbr @ '':\<newline>\<newline>''
             @ dumps search_results)])))))))))"

subsection \<open>\<^verbatim>\<open>get_municipality_url\<close>\<close>

definition branch_get_municipality_url ::
  "remote \<Rightarrow> (string \<rightharpoonup> json) \<Rightarrow> TextContent list io" where
  "branch_get_municipality_url remote arguments =
     io_bind (lift (subscript arguments ''municipality_name'')) (\<lambda>municipality_name.
     io_bind (lift (sum_bind (subscript arguments ''state_abbr'') str_lower)) (\<lambda>state_abbr.
     io_bind (lift (str_lower municipality_name)) (\<lambda>lowered.
     io_bind (ret (replace CHR '','' [] (replace CHR '' '' ''_'' lowered))) (\<lambda>formatted_name.
     io_bind (ret (MUNICODE_LIBRARY_BASE @ ''/'' @ state_abbr @ ''/'' @ formatted_name
                   @ ''/codes/code_of_ordinances'')) (\<lambda>url.
     ret [text_content
            (''Municode Library URL for '' @ str municipality_name @ '', ''
             @ upper state_abbr @ '':\<newline>'' @ url)])))))"

subsection \<open>The dispatch and its \<^verbatim>\<open>except\<close> clause\<close>

definition handle_call_tool_body ::
  "remote \<Rightarrow> string \<Rightarrow> (string \<rightharpoonup> json) \<Rightarrow> TextContent list io" where
  "handle_call_tool_body remote name arguments =
     (if name = ''get_states_info'' then branch_get_states_info remote arguments
      else if name = ''list_municipalities'' then branch_list_municipalities remote arguments
      else if name = ''get_municipality_info'' then branch_get_municipality_info remote arguments
      else if name = ''get_code_structure'' then branch_get_code_structure remote arguments
      else if name = ''get_code_section'' then branch_get_code_section remote arguments
      else if name = ''search_municipal_codes'' then
        branch_search_municipal_codes remote arguments
      else if name = ''get_municipality_url'' then branch_get_municipality_url remote arguments
      else ret [text_content (''Unknown tool: '' @ name)])"

text \<open>The result of a call: the requests sent, and the list returned. The \<^verbatim>\<open>except\<close>
  clause also logs the error, which leaves no trace in the result.\<close>

definition handle_call_tool ::
  "remote \<Rightarrow> string \<Rightarrow> (string \<rightharpoonup> json) \<Rightarrow> request list \<times> TextContent list" where
  "handle_call_tool remote name arguments =
     (case handle_call_tool_body remote name arguments of
        (sent, Inl e) \<Rightarrow> (sent, [text_content (''Error: '' @ exn_str e)])
      | (sent, Inr result) \<Rightarrow> (sent, result))"

section \<open>Properties of a computation\<close>

text \<open>A computation that, when it returns, returns one text block.\<close>

definition single_text :: "TextContent list io \<Rightarrow> bool" where
  "single_text m = (case snd m of Inl e \<Rightarrow> True | Inr r \<Rightarrow> (\<exists>t. r = [text_content t]))"

text \<open>A computation that raises the error of any request of its that failed.\<close>

definition stops_at_failure :: "remote \<Rightarrow> 'a io \<Rightarrow> bool" where
  "stops_at_failure remote m =
     (\<forall>req \<in> set (fst m). \<forall>e. remote req = Inl e \<longrightarrow> snd m = Inl e)"

section \<open>The library URL as the specification words it\<close>

text \<open>Lower-case the name, turn spaces into underscores, strip commas; then join the
  library base, the lower-cased state code, the slug and the constant suffix.\<close>

definition spec_slug :: "string \<Rightarrow> string" where
  "spec_slug m =
     filter (\<lambda>c. c \<noteq> CHR '','') (map (\<lambda>c. if c = CHR '' '' then CHR ''_'' else c) (lower m))"

definition spec_url :: "string \<Rightarrow> string \<Rightarrow> string" where
  "spec_url m s =
     MUNICODE_LIBRARY_BASE @ ''/'' @ lower s @ ''/'' @ spec_slug m @ ''/codes/code_of_ordinances''"

section \<open>A lookup without identifier, and sample invocations\<close>

text \<open>The record the lookup returned has no \<^verbatim>\<open>ClientID\<close>, or one that Python takes
  for false.\<close>

definition no_identifier :: "(string \<times> json) list \<Rightarrow> bool" where
  "no_identifier info = (case map_of info ''ClientID'' of None \<Rightarrow> True | Some v \<Rightarrow> \<not> truthy v)"

text \<open>An invocation with every argument the tools read, and remote services that answer
  every request with a record without identifier, or with the identifier 0.\<close>

definition sample_arguments :: "string \<rightharpoonup> json" where
  "sample_arguments =
     [''municipality_name'' \<mapsto> JStr ''Norfolk'', ''state_abbr'' \<mapsto> JStr ''va'',
      ''node_id'' \<mapsto> JStr ''42'', ''search_query'' \<mapsto> JStr ''zoning'',
      ''titles_only'' \<mapsto> JBool True]"

definition remote_without_id :: remote where
  "remote_without_id req = Inr (JObj [(''Message'', JStr ''no match'')])"

definition remote_zero_id :: remote where
  "remote_zero_id req = Inr (JObj [(''ClientID'', JInt 0)])"

text \<open>A remote service that answers every request with the empty record.\<close>

definition remote_empty_record :: remote where
  "remote_empty_record req = Inr (JObj [])"

text \<open>Three subscribed products; the second and the third have "code" in their names.\<close>

definition zoning_product :: json where
  "zoning_product =
     JObj [(''ProductName'', JStr ''Zoning Ordinance''), (''Id'', JInt 1), (''ProductID'', JInt 2)]"

definition code_product_1 :: json where
  "code_product_1 =
     JObj [(''ProductName'', JStr ''CODE of Ordinances''), (''Id'', JInt 7), (''ProductID'', JInt 9)]"

definition code_product_2 :: json where
  "code_product_2 =
     JObj [(''ProductName'', JStr ''Building Code''), (''Id'', JInt 8), (''ProductID'', JInt 3)]"

text \<open>A remote service that knows Norfolk and its three products.\<close>

definition remote_norfolk :: remote where
  "remote_norfolk req =
     (if url req = MUNICODE_API_BASE @ ''/Clients/name'' then
        Inr (JObj [(''ClientID'', JInt 5), (''ClientName'', JStr ''Norfolk'')])
      else if url req = MUNICODE_API_BASE @ ''/ClientContent/5'' then
        Inr (JList [zoning_product, code_product_1, code_product_2])
      else Inr (JObj []))"



section \<open>Products, as the claims speak of them\<close>

text \<open>A product whose \<^verbatim>\<open>ProductName\<close> contains "code", whatever the letter case.\<close>

definition has_code_name :: "json \<Rightarrow> bool" where
  "has_code_name p =
     (case p of
        JObj kvs \<Rightarrow>
          (case map_of kvs ''ProductName'' of
             Some (JStr product_name) \<Rightarrow> contains ''code'' (lower product_name)
           | _ \<Rightarrow> False)
      | _ \<Rightarrow> False)"

text \<open>A product record: an object whose \<^verbatim>\<open>ProductName\<close>, when it has one, is a string.\<close>

definition product_record :: "json \<Rightarrow> bool" where
  "product_record p =
     (case p of
        JObj kvs \<Rightarrow>
          (case map_of kvs ''ProductName'' of
             None \<Rightarrow> True
           | Some (JStr product_name) \<Rightarrow> True
           | _ \<Rightarrow> False)
      | _ \<Rightarrow> False)"

section \<open>Basic facts about the effects and the Python operations\<close>

lemma io_bind_lift_Inl [simp]: "io_bind (lift (Inl e)) f = ([], Inl e)"
  by (simp add: io_bind_def lift_def)

lemma io_bind_lift_Inr [simp]: "io_bind (lift (Inr x)) f = f x"
  by (simp add: io_bind_def lift_def split: prod.splits)

lemma io_bind_ret [simp]: "io_bind (ret x) f = f x"
  by (simp add: io_bind_def ret_def split: prod.splits)

lemma fst_ret [simp]: "fst (ret x) = []"
  by (simp add: ret_def)

lemma snd_ret [simp]: "snd (ret x) = Inr x"
  by (simp add: ret_def)

lemma handle_call_tool_alt:
  "handle_call_tool remote name arguments =
     (fst (handle_call_tool_body remote name arguments),
      case snd (handle_call_tool_body remote name arguments) of
        Inl e \<Rightarrow> [text_content (''Error: '' @ exn_str e)]
      | Inr result \<Rightarrow> result)"
  by (simp add: handle_call_tool_def split: prod.splits sum.splits)

lemma io_bind_http_get:
  "io_bind (http_get remote req) f =
     (case remote req of
        Inl e \<Rightarrow> ([req], Inl e)
      | Inr x \<Rightarrow> (req # fst (f x), snd (f x)))"
  by (simp add: io_bind_def http_get_def split: sum.splits prod.splits)

lemma sum_bind_Inl [simp]: "sum_bind (Inl e) f = Inl e"
  by (simp add: sum_bind_def)

lemma sum_bind_Inr [simp]: "sum_bind (Inr x) f = f x"
  by (simp add: sum_bind_def)

lemma subscript_Some [simp]: "arguments key = Some v \<Longrightarrow> subscript arguments key = Inr v"
  by (simp add: subscript_def)

lemma subscript_None [simp]:
  "arguments key = None \<Longrightarrow> subscript arguments key = Inl (KeyError key)"
  by (simp add: subscript_def)

lemma str_upper_JStr [simp]: "str_upper (JStr s) = Inr (upper s)"
  by (simp add: str_upper_def)

lemma str_lower_JStr [simp]: "str_lower (JStr s) = Inr (lower s)"
  by (simp add: str_lower_def)

lemma str_JStr [simp]: "str (JStr s) = s"
  by (simp add: str_def)

lemma upper_lower_char: "upper_char (lower_char c) = upper_char c"
proof (cases "65 \<le> (of_char c :: nat) \<and> (of_char c :: nat) \<le> 90")
  case True
  then have "lower_char c = char_of ((of_char c :: nat) + 32)"
    by (simp add: lower_char_def)
  moreover have "(of_char (char_of ((of_char c :: nat) + 32) :: char) :: nat) = of_char c + 32"
    using True by simp
  ultimately show ?thesis
    using True by (simp add: upper_char_def)
next
  case False
  then show ?thesis by (auto simp: lower_char_def Let_def)
qed

lemma upper_lower [simp]: "upper (lower s) = upper s"
  by (simp add: upper_def lower_def upper_lower_char)

lemma replace_slug:
  "replace CHR '','' [] (replace CHR '' '' ''_'' s) =
     filter (\<lambda>c. c \<noteq> CHR '','') (map (\<lambda>c. if c = CHR '' '' then CHR ''_'' else c) s)"
  by (induction s) (simp_all add: replace_def)

section \<open>The library URL\<close>

text \<open>
  Claim C5. Whatever the remote service would answer, \<^verbatim>\<open>get_municipality_url\<close> sends no
  request, and for a municipality name \<open>m\<close> and a state code \<open>s\<close> its text is the display
  line (the name as given, the state code in upper case) followed by the URL the
  specification describes: the library base, the lower-cased state code, the slug of the
  name (lower-cased, spaces turned into underscores, commas removed) and the suffix
  \<^verbatim>\<open>codes/code_of_ordinances\<close>. For Norfolk, VA this URL is
  \<^verbatim>\<open>https://library.municode.com/va/norfolk/codes/code_of_ordinances\<close>, and the slug of
  "Example City, Town" is \<^verbatim>\<open>example_city_town\<close>.
\<close>

theorem get_municipality_url_construction:
  assumes "arguments ''municipality_name'' = Some (JStr m)"
    and "arguments ''state_abbr'' = Some (JStr s)"
  shows "handle_call_tool remote ''get_municipality_url'' arguments =
           ([], [text_content (''Municode Library URL for '' @ m @ '', '' @ upper s @ '':\<newline>''
                   @ spec_url m s)])
         \<and> spec_url ''Norfolk'' ''VA''
             = ''https://library.municode.com/va/norfolk/codes/code_of_ordinances''
         \<and> spec_slug ''Example City, Town'' = ''example_city_town''"
proof -
  have "spec_url ''Norfolk'' ''VA''
             = ''https://library.municode.com/va/norfolk/codes/code_of_ordinances''"
    by (simp add: spec_url_def spec_slug_def lower_def lower_char_def char_of_def
        bit_Suc_0_iff MUNICODE_LIBRARY_BASE_def)
  moreover have "spec_slug ''Example City, Town'' = ''example_city_town''"
    by (simp add: spec_slug_def lower_def lower_char_def char_of_def bit_Suc_0_iff)
  moreover have "handle_call_tool remote ''get_municipality_url'' arguments =
           ([], [text_content (''Municode Library URL for '' @ m @ '', '' @ upper s @ '':\<newline>''
                   @ spec_url m s)])"
    using assms
    by (simp add: handle_call_tool_alt handle_call_tool_body_def branch_get_municipality_url_def
        replace_slug spec_url_def spec_slug_def)
  ultimately show ?thesis by simp
qed

theorem get_municipality_url_witness:
  "handle_call_tool (\<lambda>req. Inr JNull) ''get_municipality_url''
     [''municipality_name'' \<mapsto> JStr ''Example City, Town'', ''state_abbr'' \<mapsto> JStr ''tx'']
   = ([], [text_content (''Municode Library URL for Example City, Town, TX:\<newline>''
        @ ''https://library.municode.com/tx/example_city_town/codes/code_of_ordinances'')])"
  using get_municipality_url_construction
    [of "[''municipality_name'' \<mapsto> JStr ''Example City, Town'', ''state_abbr'' \<mapsto> JStr ''tx'']"
        "''Example City, Town''" "''tx''" "\<lambda>req. Inr JNull"]
  by (simp add: spec_url_def spec_slug_def lower_def lower_char_def upper_def upper_char_def
      char_of_def bit_Suc_0_iff MUNICODE_LIBRARY_BASE_def)

section \<open>Unknown tools\<close>

text \<open>
  Claim C6. For a tool name that is none of the seven registered names the call returns
  the single text "Unknown tool: " followed by the name; it raises nothing and sends no
  request.
\<close>

theorem unknown_tool:
  "name \<notin> set tool_names \<Longrightarrow>
     handle_call_tool remote name arguments = ([], [text_content (''Unknown tool: '' @ name)])"
  by (simp add: tool_names_def handle_call_tool_alt handle_call_tool_body_def)

theorem unknown_tool_witness:
  "''delete_everything'' \<notin> set tool_names \<and>
     handle_call_tool (\<lambda>req. Inl (RemoteError ''unreachable'')) ''delete_everything'' Map.empty
       = ([], [text_content ''Unknown tool: delete_everything''])"
  using unknown_tool [of "''delete_everything''" "\<lambda>req. Inl (RemoteError ''unreachable'')" Map.empty]
  by (simp add: tool_names_def)

section \<open>The shape of every result\<close>

lemmas branch_defs =
  branch_get_states_info_def branch_list_municipalities_def
  branch_get_municipality_info_def branch_get_code_structure_def branch_get_code_section_def
  branch_search_municipal_codes_def branch_get_municipality_url_def

lemmas client_defs =
  get_states_def get_clients_by_state_def get_client_by_name_def get_client_content_def
  get_toc_children_def get_codes_content_def search_munidocs_def

lemma single_text_ret: "single_text (ret [text_content t])"
  by (auto simp: single_text_def)

lemma single_text_bind:
  assumes "\<And>x. single_text (f x)"
  shows "single_text (io_bind m f)"
proof (cases m)
  case (Pair t r)
  show ?thesis
  proof (cases r)
    case (Inl e)
    with Pair show ?thesis by (simp add: single_text_def io_bind_def)
  next
    case (Inr x)
    with Pair assms [of x] show ?thesis
      by (auto simp: single_text_def io_bind_def split: prod.splits)
  qed
qed

lemma single_text_if: "single_text a \<Longrightarrow> single_text b \<Longrightarrow> single_text (if c then a else b)"
  by simp

lemma single_text_option:
  "single_text a \<Longrightarrow> (\<And>p. single_text (b p)) \<Longrightarrow>
     single_text (case x of None \<Rightarrow> a | Some p \<Rightarrow> b p)"
  by (cases x) simp_all

lemma single_text_body: "single_text (handle_call_tool_body remote name arguments)"
  unfolding handle_call_tool_body_def branch_defs
  by (intro single_text_ret single_text_bind single_text_if single_text_option)

text \<open>
  Claim C10. For every tool name, every argument mapping and every behaviour of the remote
  service, the list \<^verbatim>\<open>handle_call_tool\<close> returns has exactly one element, a content
  block of type "text": this holds for each of the seven branches, for the unknown-tool
  branch and for the exception handler.
\<close>

theorem one_text_block:
  "\<exists>t. snd (handle_call_tool remote name arguments) = [\<lparr>tc_type = ''text'', tc_text = t\<rparr>]"
  using single_text_body [of remote name arguments]
  by (auto simp: handle_call_tool_alt single_text_def text_content_def split: sum.splits)

section \<open>Exceptions\<close>

lemma stops_ret: "stops_at_failure remote (ret x)"
  by (simp add: stops_at_failure_def ret_def)

lemma stops_lift: "stops_at_failure remote (lift r)"
  by (simp add: stops_at_failure_def lift_def)

lemma stops_http_get: "stops_at_failure remote (http_get remote req)"
  by (simp add: stops_at_failure_def http_get_def)

lemma stops_bind:
  assumes "stops_at_failure remote m" and "\<And>x. stops_at_failure remote (f x)"
  shows "stops_at_failure remote (io_bind m f)"
proof (cases m)
  case (Pair t r)
  show ?thesis
  proof (cases r)
    case (Inl e)
    with Pair assms(1) show ?thesis by (simp add: stops_at_failure_def io_bind_def)
  next
    case (Inr x)
    obtain t' r' where fx: "f x = (t', r')" by (cases "f x")
    from Pair Inr assms(1) have no_fail: "\<forall>req \<in> set t. \<forall>e. remote req \<noteq> Inl e"
      by (simp add: stops_at_failure_def)
    from assms(2) [of x] fx have "\<forall>req \<in> set t'. \<forall>e. remote req = Inl e \<longrightarrow> r' = Inl e"
      by (simp add: stops_at_failure_def)
    with no_fail Pair Inr fx show ?thesis
      by (auto simp: stops_at_failure_def io_bind_def)
  qed
qed

lemma stops_if:
  "stops_at_failure remote a \<Longrightarrow> stops_at_failure remote b \<Longrightarrow>
     stops_at_failure remote (if c then a else b)"
  by simp

lemma stops_option:
  "stops_at_failure remote a \<Longrightarrow> (\<And>p. stops_at_failure remote (b p)) \<Longrightarrow>
     stops_at_failure remote (case x of None \<Rightarrow> a | Some p \<Rightarrow> b p)"
  by (cases x) simp_all

lemma stops_body: "stops_at_failure remote (handle_call_tool_body remote name arguments)"
  unfolding handle_call_tool_body_def branch_defs client_defs
  by (intro stops_ret stops_lift stops_http_get stops_bind stops_if stops_option)

text \<open>
  Claim C2. \<^verbatim>\<open>handle_call_tool\<close> is a total function into lists of content blocks: no
  exception leaves it. For every tool name and argument mapping, an exception \<open>e\<close> raised
  anywhere in the body of the \<^verbatim>\<open>try\<close> is turned into the text "Error: " followed by
  \<^verbatim>\<open>str(e)\<close>; in particular, when any request the call has sent failed in the client
  (non-2xx status, transport failure) with \<open>e'\<close>, the result is the text "Error: " followed
  by \<^verbatim>\<open>str(e')\<close>.
\<close>

theorem exceptions_become_error_text:
  "(snd (handle_call_tool_body remote name arguments) = Inl e \<longrightarrow>
      snd (handle_call_tool remote name arguments) = [text_content (''Error: '' @ exn_str e)])
   \<and> (req \<in> set (fst (handle_call_tool remote name arguments)) \<and> remote req = Inl e' \<longrightarrow>
      snd (handle_call_tool remote name arguments) = [text_content (''Error: '' @ exn_str e')])"
proof (intro conjI impI)
  assume "snd (handle_call_tool_body remote name arguments) = Inl e"
  then show "snd (handle_call_tool remote name arguments) = [text_content (''Error: '' @ exn_str e)]"
    by (simp add: handle_call_tool_alt)
next
  assume a: "req \<in> set (fst (handle_call_tool remote name arguments)) \<and> remote req = Inl e'"
  then have "req \<in> set (fst (handle_call_tool_body remote name arguments))"
    by (simp add: handle_call_tool_alt)
  with a stops_body [of remote name arguments]
  have "snd (handle_call_tool_body remote name arguments) = Inl e'"
    unfolding stops_at_failure_def by blast
  then show "snd (handle_call_tool remote name arguments) = [text_content (''Error: '' @ exn_str e')]"
    by (simp add: handle_call_tool_alt)
qed

theorem exceptions_become_error_text_witness:
  "snd (handle_call_tool_body (\<lambda>req. Inr JNull) ''get_states_info'' Map.empty)
     = Inl (KeyError ''state_abbr'')
   \<and> states_request ''VA'' \<in> set (fst (handle_call_tool
         (\<lambda>req. Inl (RemoteError ''Server error 500'')) ''get_states_info''
         [''state_abbr'' \<mapsto> JStr ''va'']))
   \<and> snd (handle_call_tool (\<lambda>req. Inr JNull) ''get_states_info'' Map.empty)
     = [text_content (''Error: '' @ [squote] @ ''state_abbr'' @ [squote])]
   \<and> snd (handle_call_tool (\<lambda>req. Inl (RemoteError ''Server error 500'')) ''get_states_info''
         [''state_abbr'' \<mapsto> JStr ''va''])
     = [text_content ''Error: Server error 500'']"
proof -
  have h1: "snd (handle_call_tool_body (\<lambda>req. Inr JNull) ''get_states_info'' Map.empty)
     = Inl (KeyError ''state_abbr'')"
    by (simp add: handle_call_tool_body_def branch_get_states_info_def)
  have h2: "states_request ''VA'' \<in> set (fst (handle_call_tool
         (\<lambda>req. Inl (RemoteError ''Server error 500'')) ''get_states_info''
         [''state_abbr'' \<mapsto> JStr ''va'']))"
    by (simp add: handle_call_tool_alt handle_call_tool_body_def branch_get_states_info_def
        get_states_def io_bind_http_get upper_def upper_char_def char_of_def bit_Suc_0_iff)
  have k: "exn_str (KeyError ''state_abbr'') = [squote] @ ''state_abbr'' @ [squote]"
    by (simp add: exn_str_def repr_str_def squote_def dquote_def repr_char_def backslash_def
        printable_def Let_def)
  have c1: "snd (handle_call_tool (\<lambda>req. Inr JNull) ''get_states_info'' Map.empty)
     = [text_content (''Error: '' @ exn_str (KeyError ''state_abbr''))]"
    using exceptions_become_error_text
      [where remote = "\<lambda>req. Inr JNull" and name = "''get_states_info''"
         and arguments = Map.empty and e = "KeyError ''state_abbr''"] h1
    by blast
  have c2: "snd (handle_call_tool (\<lambda>req. Inl (RemoteError ''Server error 500''))
         ''get_states_info'' [''state_abbr'' \<mapsto> JStr ''va''])
     = [text_content (''Error: '' @ exn_str (RemoteError ''Server error 500''))]"
    using exceptions_become_error_text
      [where remote = "\<lambda>req. Inl (RemoteError ''Server error 500'')"
         and name = "''get_states_info''" and arguments = "[''state_abbr'' \<mapsto> JStr ''va'']"
         and req = "states_request ''VA''" and e' = "RemoteError ''Server error 500''"] h2
    by blast
  from h1 h2 c1 c2 k show ?thesis
    by (simp add: exn_str_def)
qed

section \<open>A lookup that yields no identifier\<close>

lemma truthy_JNull [simp]: "\<not> truthy JNull"
  by (simp add: truthy_def)

lemma get_JObj [simp]:
  "get (JObj kvs) key dflt = Inr (case map_of kvs key of None \<Rightarrow> dflt | Some x \<Rightarrow> x)"
  by (simp add: get_def)

lemma contains_middle: "contains needle (a @ needle @ b)"
proof (induction a)
  case Nil
  show ?case
  proof (cases "needle @ b")
    case Nil
    then show ?thesis by simp
  next
    case (Cons c cs)
    have "take (length needle) (needle @ b) = needle" by simp
    with Cons have "take (length needle) (c # cs) = needle" by simp
    then have "contains needle (c # cs)" by simp
    with Cons show ?thesis by simp
  qed
next
  case (Cons x a)
  then show ?case by simp
qed

lemma not_found_structure:
  assumes "arguments ''municipality_name'' = Some m"
    and "arguments ''state_abbr'' = Some (JStr s)"
    and "remote (client_by_name_request m (upper s)) = Inr (JObj info)"
    and "no_identifier info"
  shows "handle_call_tool remote ''get_code_structure'' arguments =
     ([client_by_name_request m (upper s)], [text_content (not_found_text m (upper s))])"
  using assms
  by (simp add: handle_call_tool_alt handle_call_tool_body_def branch_get_code_structure_def
      get_client_by_name_def io_bind_http_get no_identifier_def split: option.splits)

lemma not_found_section:
  assumes "arguments ''municipality_name'' = Some m"
    and "arguments ''state_abbr'' = Some (JStr s)"
    and "arguments ''node_id'' = Some n"
    and "remote (client_by_name_request m (upper s)) = Inr (JObj info)"
    and "no_identifier info"
  shows "handle_call_tool remote ''get_code_section'' arguments =
     ([client_by_name_request m (upper s)], [text_content (not_found_text m (upper s))])"
  using assms
  by (simp add: handle_call_tool_alt handle_call_tool_body_def branch_get_code_section_def
      get_client_by_name_def io_bind_http_get no_identifier_def split: option.splits)

lemma not_found_search:
  assumes "arguments ''municipality_name'' = Some m"
    and "arguments ''state_abbr'' = Some (JStr s)"
    and "arguments ''search_query'' = Some q"
    and "remote (client_by_name_request m (upper s)) = Inr (JObj info)"
    and "no_identifier info"
  shows "handle_call_tool remote ''search_municipal_codes'' arguments =
     ([client_by_name_request m (upper s)], [text_content (not_found_text m (upper s))])"
  using assms
  by (simp add: handle_call_tool_alt handle_call_tool_body_def branch_search_municipal_codes_def
      get_client_by_name_def io_bind_http_get no_identifier_def split: option.splits)

lemma not_found_info:
  assumes "arguments ''municipality_name'' = Some m"
    and "arguments ''state_abbr'' = Some (JStr s)"
    and "remote (client_by_name_request m (upper s)) = Inr (JObj info)"
    and "no_identifier info"
  shows "handle_call_tool remote ''get_municipality_info'' arguments =
     ([client_by_name_request m (upper s)],
      [text_content (dumps (JObj [(''client_info'', JObj info)]))])"
  using assms
  by (simp add: handle_call_tool_alt handle_call_tool_body_def branch_get_municipality_info_def
      get_client_by_name_def io_bind_http_get no_identifier_def split: option.splits)

lemma not_found_text_contains:
  "contains (str m) (not_found_text m st) \<and> contains st (not_found_text m st)"
proof -
  have "contains (str m) ((''Municipality '' @ [squote]) @ str m @ ([squote] @ '' not found in '' @ st))"
    by (rule contains_middle)
  moreover have "contains st ((''Municipality '' @ [squote] @ str m @ [squote] @ '' not found in '') @ st @ [])"
    by (rule contains_middle)
  ultimately show ?thesis by (simp add: not_found_text_def)
qed


lemmas eval_chars = upper_def upper_char_def lower_def lower_char_def char_of_def bit_Suc_0_iff

lemmas eval_dumps =
  dumps_def encode_str_def escape_char_def printable_def newline_indent_def
  dquote_def backslash_def squote_def

lemma upper_va: "upper ''va'' = ''VA''"
  by (simp add: eval_chars)

lemma sample_arguments_simps:
  "sample_arguments ''municipality_name'' = Some (JStr ''Norfolk'')"
  "sample_arguments ''state_abbr'' = Some (JStr ''va'')"
  "sample_arguments ''node_id'' = Some (JStr ''42'')"
  "sample_arguments ''search_query'' = Some (JStr ''zoning'')"
  "sample_arguments ''titles_only'' = Some (JBool True)"
  "sample_arguments ''page_size'' = None"
  "sample_arguments ''page_number'' = None"
  by (simp_all add: sample_arguments_def)

text \<open>
  Claim C1, as stated, fails for \<^verbatim>\<open>get_municipality_info\<close>: when the lookup for
  Norfolk, VA returns the empty record, the tool sends no further request but returns the
  JSON text of \<^verbatim>\<open>{"client_info": {}}\<close>, which does not contain the municipality name.
\<close>

theorem not_found_counterexample:
  "handle_call_tool remote_empty_record ''get_municipality_info'' sample_arguments
   = ([client_by_name_request (JStr ''Norfolk'') ''VA''],
      [text_content (''{\<newline>  '' @ [CHR 0x22] @ ''client_info'' @ [CHR 0x22] @ '': {}\<newline>}'')])
   \<and> \<not> contains ''Norfolk''
        (''{\<newline>  '' @ [CHR 0x22] @ ''client_info'' @ [CHR 0x22] @ '': {}\<newline>}'')"
proof -
  have d: "dumps (JObj [(''client_info'', JObj [])])
      = ''{\<newline>  '' @ [CHR 0x22] @ ''client_info'' @ [CHR 0x22] @ '': {}\<newline>}''"
    by (simp add: eval_dumps numeral_2_eq_2)
  have "handle_call_tool remote_empty_record ''get_municipality_info'' sample_arguments
   = ([client_by_name_request (JStr ''Norfolk'') ''VA''],
      [text_content (dumps (JObj [(''client_info'', JObj [])]))])"
    by (simp add: handle_call_tool_alt handle_call_tool_body_def
        branch_get_municipality_info_def get_client_by_name_def io_bind_http_get upper_va
        sample_arguments_simps remote_empty_record_def)
  moreover have "\<not> contains ''Norfolk''
        (''{\<newline>  '' @ [CHR 0x22] @ ''client_info'' @ [CHR 0x22] @ '': {}\<newline>}'')"
    by simp
  ultimately show ?thesis by (simp add: d)
qed

text \<open>
  Claim C1, amended. Let the state code be a string and let the lookup return a record
  with no truthy \<^verbatim>\<open>ClientID\<close>. Then \<^verbatim>\<open>get_code_structure\<close>, \<^verbatim>\<open>get_code_section\<close>
  (given its node id) and \<^verbatim>\<open>search_municipal_codes\<close> (given its query) each return the
  text "Municipality '<name>' not found in <STATE>", with the state code in upper case;
  this text contains the municipality name and the upper-cased state code.
  \<^verbatim>\<open>get_municipality_info\<close> returns the JSON text of the record
  \<^verbatim>\<open>{"client_info": <lookup result>}\<close>. Each of the four sends the lookup request and no
  other.
\<close>

theorem not_found_without_identifier:
  assumes "arguments ''municipality_name'' = Some m"
    and "arguments ''state_abbr'' = Some (JStr s)"
    and "remote (client_by_name_request m (upper s)) = Inr (JObj info)"
    and "\<forall>v. map_of info ''ClientID'' = Some v \<longrightarrow> \<not> truthy v"
  shows "handle_call_tool remote ''get_code_structure'' arguments =
           ([client_by_name_request m (upper s)],
            [text_content (''Municipality '' @ [CHR 0x27] @ str m @ [CHR 0x27]
               @ '' not found in '' @ upper s)])
       \<and> (arguments ''node_id'' = Some n \<longrightarrow>
           handle_call_tool remote ''get_code_section'' arguments =
           ([client_by_name_request m (upper s)],
            [text_content (''Municipality '' @ [CHR 0x27] @ str m @ [CHR 0x27]
               @ '' not found in '' @ upper s)]))
       \<and> (arguments ''search_query'' = Some q \<longrightarrow>
           handle_call_tool remote ''search_municipal_codes'' arguments =
           ([client_by_name_request m (upper s)],
            [text_content (''Municipality '' @ [CHR 0x27] @ str m @ [CHR 0x27]
               @ '' not found in '' @ upper s)]))
       \<and> handle_call_tool remote ''get_municipality_info'' arguments =
           ([client_by_name_request m (upper s)],
            [text_content (dumps (JObj [(''client_info'', JObj info)]))])
       \<and> contains (str m) (''Municipality '' @ [CHR 0x27] @ str m @ [CHR 0x27]
               @ '' not found in '' @ upper s)
       \<and> contains (upper s) (''Municipality '' @ [CHR 0x27] @ str m @ [CHR 0x27]
               @ '' not found in '' @ upper s)"
proof -
  from assms(4) have ni: "no_identifier info"
    by (simp add: no_identifier_def split: option.splits)
  have t: "''Municipality '' @ [CHR 0x27] @ str m @ [CHR 0x27] @ '' not found in '' @ upper s
      = not_found_text m (upper s)"
    by (simp add: not_found_text_def squote_def)
  have a: "handle_call_tool remote ''get_code_structure'' arguments =
      ([client_by_name_request m (upper s)], [text_content (not_found_text m (upper s))])"
    using assms(1,2,3) ni by (rule not_found_structure)
  have b: "handle_call_tool remote ''get_code_section'' arguments =
      ([client_by_name_request m (upper s)], [text_content (not_found_text m (upper s))])"
    if "arguments ''node_id'' = Some n"
    using assms(1,2) that assms(3) ni by (rule not_found_section)
  have c: "handle_call_tool remote ''search_municipal_codes'' arguments =
      ([client_by_name_request m (upper s)], [text_content (not_found_text m (upper s))])"
    if "arguments ''search_query'' = Some q"
    using assms(1,2) that assms(3) ni by (rule not_found_search)
  have d: "handle_call_tool remote ''get_municipality_info'' arguments =
      ([client_by_name_request m (upper s)],
       [text_content (dumps (JObj [(''client_info'', JObj info)]))])"
    using assms(1,2,3) ni by (rule not_found_info)
  show ?thesis
    unfolding t
    using a b c d not_found_text_contains [of m "upper s"]
    by blast
qed


theorem not_found_without_identifier_witness:
  "handle_call_tool remote_without_id ''get_code_structure'' sample_arguments =
     ([client_by_name_request (JStr ''Norfolk'') ''VA''],
      [text_content (''Municipality '' @ [CHR 0x27] @ ''Norfolk'' @ [CHR 0x27]
         @ '' not found in VA'')])
   \<and> handle_call_tool remote_without_id ''get_code_section'' sample_arguments =
     ([client_by_name_request (JStr ''Norfolk'') ''VA''],
      [text_content (''Municipality '' @ [CHR 0x27] @ ''Norfolk'' @ [CHR 0x27]
         @ '' not found in VA'')])
   \<and> handle_call_tool remote_without_id ''search_municipal_codes'' sample_arguments =
     ([client_by_name_request (JStr ''Norfolk'') ''VA''],
      [text_content (''Municipality '' @ [CHR 0x27] @ ''Norfolk'' @ [CHR 0x27]
         @ '' not found in VA'')])
   \<and> handle_call_tool remote_without_id ''get_municipality_info'' sample_arguments =
     ([client_by_name_request (JStr ''Norfolk'') ''VA''],
      [text_content (dumps (JObj [(''client_info'', JObj [(''Message'', JStr ''no match'')])]))])"
proof -
  have h3: "remote_without_id (client_by_name_request (JStr ''Norfolk'') (upper ''va''))
      = Inr (JObj [(''Message'', JStr ''no match'')])"
    by (simp add: remote_without_id_def)
  have h4: "\<forall>v. map_of [(''Message'', JStr ''no match'')] ''ClientID'' = Some v \<longrightarrow> \<not> truthy v"
    by simp
  show ?thesis
    using not_found_without_identifier
      [where arguments = sample_arguments and remote = remote_without_id
         and n = "JStr ''42''" and q = "JStr ''zoning''",
       OF sample_arguments_simps(1) sample_arguments_simps(2) h3 h4]
    by (simp add: sample_arguments_simps upper_va)
qed

text \<open>
  Claim C8. Let the lookup return a record whose \<^verbatim>\<open>ClientID\<close> is present but false for
  Python (such as 0, the empty string or \<^verbatim>\<open>None\<close>). Then the municipality counts as not
  found: \<^verbatim>\<open>get_municipality_info\<close> sends no product request and returns the JSON text of
  the lookup result alone, and \<^verbatim>\<open>get_code_structure\<close>, \<^verbatim>\<open>get_code_section\<close> and
  \<^verbatim>\<open>search_municipal_codes\<close> return the not-found text after the lookup request alone.
\<close>

theorem falsy_identifier_is_not_found:
  assumes "arguments ''municipality_name'' = Some m"
    and "arguments ''state_abbr'' = Some (JStr s)"
    and "remote (client_by_name_request m (upper s)) = Inr (JObj info)"
    and "map_of info ''ClientID'' = Some v"
    and "\<not> truthy v"
  shows "handle_call_tool remote ''get_municipality_info'' arguments =
           ([client_by_name_request m (upper s)],
            [text_content (dumps (JObj [(''client_info'', JObj info)]))])
       \<and> handle_call_tool remote ''get_code_structure'' arguments =
           ([client_by_name_request m (upper s)],
            [text_content (not_found_text m (upper s))])
       \<and> (arguments ''node_id'' = Some n \<longrightarrow>
           handle_call_tool remote ''get_code_section'' arguments =
           ([client_by_name_request m (upper s)],
            [text_content (not_found_text m (upper s))]))
       \<and> (arguments ''search_query'' = Some q \<longrightarrow>
           handle_call_tool remote ''search_municipal_codes'' arguments =
           ([client_by_name_request m (upper s)],
            [text_content (not_found_text m (upper s))]))
       \<and> \<not> truthy (JInt 0) \<and> \<not> truthy (JStr []) \<and> \<not> truthy JNull"
proof -
  from assms(4,5) have ni: "no_identifier info"
    by (simp add: no_identifier_def)
  have a: "handle_call_tool remote ''get_code_structure'' arguments =
      ([client_by_name_request m (upper s)], [text_content (not_found_text m (upper s))])"
    using assms(1,2,3) ni by (rule not_found_structure)
  have b: "handle_call_tool remote ''get_code_section'' arguments =
      ([client_by_name_request m (upper s)], [text_content (not_found_text m (upper s))])"
    if "arguments ''node_id'' = Some n"
    using assms(1,2) that assms(3) ni by (rule not_found_section)
  have c: "handle_call_tool remote ''search_municipal_codes'' arguments =
      ([client_by_name_request m (upper s)], [text_content (not_found_text m (upper s))])"
    if "arguments ''search_query'' = Some q"
    using assms(1,2) that assms(3) ni by (rule not_found_search)
  have d: "handle_call_tool remote ''get_municipality_info'' arguments =
      ([client_by_name_request m (upper s)],
       [text_content (dumps (JObj [(''client_info'', JObj info)]))])"
    using assms(1,2,3) ni by (rule not_found_info)
  have e: "\<not> truthy (JInt 0) \<and> \<not> truthy (JStr []) \<and> \<not> truthy JNull"
    by (simp add: truthy_def)
  from a b c d e show ?thesis by blast
qed

theorem falsy_identifier_is_not_found_witness:
  "map_of [(''ClientID'', JInt 0)] ''ClientID'' = Some (JInt 0)
   \<and> \<not> truthy (JInt 0)
   \<and> handle_call_tool remote_zero_id ''get_municipality_info'' sample_arguments =
     ([client_by_name_request (JStr ''Norfolk'') ''VA''],
      [text_content (dumps (JObj [(''client_info'', JObj [(''ClientID'', JInt 0)])]))])
   \<and> handle_call_tool remote_zero_id ''get_code_structure'' sample_arguments =
     ([client_by_name_request (JStr ''Norfolk'') ''VA''],
      [text_content (not_found_text (JStr ''Norfolk'') ''VA'')])
   \<and> handle_call_tool remote_zero_id ''get_code_section'' sample_arguments =
     ([client_by_name_request (JStr ''Norfolk'') ''VA''],
      [text_content (not_found_text (JStr ''Norfolk'') ''VA'')])
   \<and> handle_call_tool remote_zero_id ''search_municipal_codes'' sample_arguments =
     ([client_by_name_request (JStr ''Norfolk'') ''VA''],
      [text_content (not_found_text (JStr ''Norfolk'') ''VA'')])"
proof -
  have h3: "remote_zero_id (client_by_name_request (JStr ''Norfolk'') (upper ''va''))
      = Inr (JObj [(''ClientID'', JInt 0)])"
    by (simp add: remote_zero_id_def)
  have h4: "map_of [(''ClientID'', JInt 0)] ''ClientID'' = Some (JInt 0)"
    by simp
  have h5: "\<not> truthy (JInt 0)"
    by (simp add: truthy_def)
  show ?thesis
    using falsy_identifier_is_not_found
      [where arguments = sample_arguments and remote = remote_zero_id
         and n = "JStr ''42''" and q = "JStr ''zoning''",
       OF sample_arguments_simps(1) sample_arguments_simps(2) h3 h4 h5] h5
    by (simp add: sample_arguments_simps upper_va)
qed


section \<open>The query of the full-text search\<close>

lemma found_search:
  assumes "arguments ''municipality_name'' = Some m"
    and "arguments ''state_abbr'' = Some (JStr s)"
    and "arguments ''search_query'' = Some q"
    and "remote (client_by_name_request m (upper s)) = Inr (JObj info)"
    and "map_of info ''ClientID'' = Some client_id"
    and "truthy client_id"
  shows "fst (handle_call_tool remote ''search_municipal_codes'' arguments) =
     [client_by_name_request m (upper s),
      search_request client_id q (arg_get arguments ''page_number'' (JInt 1))
        (arg_get arguments ''page_size'' (JInt 10))
        (arg_get arguments ''titles_only'' (JBool False)) (JBool False)]"
  using assms
  by (simp add: handle_call_tool_alt handle_call_tool_body_def branch_search_municipal_codes_def
      get_client_by_name_def search_munidocs_def io_bind_http_get split: sum.splits)

text \<open>
  Claim C4. Every call of the search method sends one request to the search endpoint whose
  query holds the constants \<^verbatim>\<open>isAutocomplete=false\<close>, \<^verbatim>\<open>mode="standard"\<close>,
  \<^verbatim>\<open>sort=0\<close>, \<^verbatim>\<open>fragmentSize=200\<close>, \<^verbatim>\<open>contentTypeId=""\<close> and \<^verbatim>\<open>stateId=0\<close>
  beside the six values of the caller. \<^verbatim>\<open>search_municipal_codes\<close>, invoked with
  \<^verbatim>\<open>titles_only=true\<close> for a municipality the lookup finds, sends after the lookup the
  search request with \<^verbatim>\<open>titlesOnly=true\<close> and \<^verbatim>\<open>isAdvanced=false\<close>.
\<close>

theorem search_query_constants:
  assumes "arguments ''municipality_name'' = Some m"
    and "arguments ''state_abbr'' = Some (JStr s)"
    and "arguments ''search_query'' = Some q"
    and "arguments ''titles_only'' = Some (JBool True)"
    and "remote (client_by_name_request m (upper s)) = Inr (JObj info)"
    and "map_of info ''ClientID'' = Some client_id"
    and "truthy client_id"
  shows "fst (search_munidocs remote c text page_num page_size titles_only is_advanced) =
           [search_request c text page_num page_size titles_only is_advanced]
       \<and> url (search_request c text page_num page_size titles_only is_advanced)
           = ''https://api.municode.com/search''
       \<and> (\<exists>kvs. params (search_request c text page_num page_size titles_only is_advanced)
             = Some kvs
           \<and> map_of kvs ''isAutocomplete'' = Some (JBool False)
           \<and> map_of kvs ''mode'' = Some (JStr ''standard'')
           \<and> map_of kvs ''sort'' = Some (JInt 0)
           \<and> map_of kvs ''fragmentSize'' = Some (JInt 200)
           \<and> map_of kvs ''contentTypeId'' = Some (JStr [])
           \<and> map_of kvs ''stateId'' = Some (JInt 0)
           \<and> map_of kvs ''clientId'' = Some c
           \<and> map_of kvs ''searchText'' = Some text
           \<and> map_of kvs ''pageNum'' = Some page_num
           \<and> map_of kvs ''pageSize'' = Some page_size
           \<and> map_of kvs ''titlesOnly'' = Some titles_only
           \<and> map_of kvs ''isAdvanced'' = Some is_advanced)
       \<and> fst (handle_call_tool remote ''search_municipal_codes'' arguments) =
           [client_by_name_request m (upper s),
            search_request client_id q (arg_get arguments ''page_number'' (JInt 1))
              (arg_get arguments ''page_size'' (JInt 10)) (JBool True) (JBool False)]"
proof -
  have a: "fst (search_munidocs remote c text page_num page_size titles_only is_advanced) =
           [search_request c text page_num page_size titles_only is_advanced]"
    by (simp add: search_munidocs_def http_get_def)
  have b: "url (search_request c text page_num page_size titles_only is_advanced)
           = ''https://api.municode.com/search''"
    by (simp add: search_request_def MUNICODE_API_BASE_def)
  have c: "\<exists>kvs. params (search_request c text page_num page_size titles_only is_advanced)
             = Some kvs
           \<and> map_of kvs ''isAutocomplete'' = Some (JBool False)
           \<and> map_of kvs ''mode'' = Some (JStr ''standard'')
           \<and> map_of kvs ''sort'' = Some (JInt 0)
           \<and> map_of kvs ''fragmentSize'' = Some (JInt 200)
           \<and> map_of kvs ''contentTypeId'' = Some (JStr [])
           \<and> map_of kvs ''stateId'' = Some (JInt 0)
           \<and> map_of kvs ''clientId'' = Some c
           \<and> map_of kvs ''searchText'' = Some text
           \<and> map_of kvs ''pageNum'' = Some page_num
           \<and> map_of kvs ''pageSize'' = Some page_size
           \<and> map_of kvs ''titlesOnly'' = Some titles_only
           \<and> map_of kvs ''isAdvanced'' = Some is_advanced"
    by (simp add: search_request_def)
  have d: "fst (handle_call_tool remote ''search_municipal_codes'' arguments) =
           [client_by_name_request m (upper s),
            search_request client_id q (arg_get arguments ''page_number'' (JInt 1))
              (arg_get arguments ''page_size'' (JInt 10)) (JBool True) (JBool False)]"
  proof -
    have "fst (handle_call_tool remote ''search_municipal_codes'' arguments) =
       [client_by_name_request m (upper s),
        search_request client_id q (arg_get arguments ''page_number'' (JInt 1))
          (arg_get arguments ''page_size'' (JInt 10))
          (arg_get arguments ''titles_only'' (JBool False)) (JBool False)]"
      using assms(1,2,3,5,6,7) by (rule found_search)
    moreover have "arg_get arguments ''titles_only'' (JBool False) = JBool True"
      using assms(4) by (simp add: arg_get_def)
    ultimately show ?thesis by simp
  qed
  from a b c d show ?thesis by blast
qed

theorem search_query_constants_witness:
  "fst (handle_call_tool remote_norfolk ''search_municipal_codes'' sample_arguments) =
     [client_by_name_request (JStr ''Norfolk'') ''VA'',
      search_request (JInt 5) (JStr ''zoning'') (JInt 1) (JInt 10) (JBool True) (JBool False)]"
proof -
  have h5: "remote_norfolk (client_by_name_request (JStr ''Norfolk'') (upper ''va''))
      = Inr (JObj [(''ClientID'', JInt 5), (''ClientName'', JStr ''Norfolk'')])"
    by (simp add: remote_norfolk_def client_by_name_request_def)
  have h6: "map_of [(''ClientID'', JInt 5), (''ClientName'', JStr ''Norfolk'')] ''ClientID''
      = Some (JInt 5)"
    by simp
  have h7: "truthy (JInt 5)"
    by (simp add: truthy_def)
  show ?thesis
    using search_query_constants
      [where arguments = sample_arguments and remote = remote_norfolk,
       OF sample_arguments_simps(1) sample_arguments_simps(2) sample_arguments_simps(4)
          sample_arguments_simps(5) h5 h6 h7]
    by (simp add: sample_arguments_simps upper_va arg_get_def)
qed


section \<open>The letter case of the state code\<close>

lemma same_case_upper: "lower s1 = lower s2 \<Longrightarrow> upper s1 = upper s2"
  by (metis upper_lower)

lemma body_case_invariant:
  assumes "arguments ''state_abbr'' = Some (JStr s1)" and "lower s1 = lower s2"
  shows "handle_call_tool_body remote name arguments =
         handle_call_tool_body remote name (arguments(''state_abbr'' \<mapsto> JStr s2))"
proof -
  have u: "upper s1 = upper s2"
    using assms(2) by (rule same_case_upper)
  have 1: "branch_get_states_info remote arguments =
      branch_get_states_info remote (arguments(''state_abbr'' \<mapsto> JStr s2))"
    using assms u by (simp add: branch_get_states_info_def subscript_def)
  have 2: "branch_list_municipalities remote arguments =
      branch_list_municipalities remote (arguments(''state_abbr'' \<mapsto> JStr s2))"
    using assms u by (simp add: branch_list_municipalities_def subscript_def)
  have 3: "branch_get_municipality_info remote arguments =
      branch_get_municipality_info remote (arguments(''state_abbr'' \<mapsto> JStr s2))"
    using assms u by (simp add: branch_get_municipality_info_def subscript_def)
  have 4: "branch_get_code_structure remote arguments =
      branch_get_code_structure remote (arguments(''state_abbr'' \<mapsto> JStr s2))"
    using assms u by (simp add: branch_get_code_structure_def subscript_def arg_get_def)
  have 5: "branch_get_code_section remote arguments =
      branch_get_code_section remote (arguments(''state_abbr'' \<mapsto> JStr s2))"
    using assms u by (simp add: branch_get_code_section_def subscript_def)
  have 6: "branch_search_municipal_codes remote arguments =
      branch_search_municipal_codes remote (arguments(''state_abbr'' \<mapsto> JStr s2))"
    using assms u by (simp add: branch_search_municipal_codes_def subscript_def arg_get_def)
  have 7: "branch_get_municipality_url remote arguments =
      branch_get_municipality_url remote (arguments(''state_abbr'' \<mapsto> JStr s2))"
    using assms u by (simp add: branch_get_municipality_url_def subscript_def)
  show ?thesis
    unfolding handle_call_tool_body_def
    by (simp only: 1 2 3 4 5 6 7)
qed

text \<open>
  Claim C9. Two invocations of any tool that differ only in the letter case of the string
  \<^verbatim>\<open>state_abbr\<close> send the same requests and return the same text: the tools that call
  the remote service read the state code through \<^verbatim>\<open>upper()\<close> only, and
  \<^verbatim>\<open>get_municipality_url\<close> reads it through \<^verbatim>\<open>lower()\<close>, upper-casing that for its
  display line.
\<close>

theorem state_abbr_case_invariant:
  assumes "arguments ''state_abbr'' = Some (JStr s1)" and "lower s1 = lower s2"
  shows "handle_call_tool remote name arguments =
         handle_call_tool remote name (arguments(''state_abbr'' \<mapsto> JStr s2))"
proof -
  have "handle_call_tool_body remote name arguments =
        handle_call_tool_body remote name (arguments(''state_abbr'' \<mapsto> JStr s2))"
    using assms by (rule body_case_invariant)
  then show ?thesis
    by (simp add: handle_call_tool_def)
qed

theorem state_abbr_case_invariant_witness:
  "lower ''va'' = lower ''Va''
   \<and> handle_call_tool remote_norfolk ''get_code_structure'' sample_arguments =
       handle_call_tool remote_norfolk ''get_code_structure''
         (sample_arguments(''state_abbr'' \<mapsto> JStr ''Va''))
   \<and> handle_call_tool remote_norfolk ''get_municipality_url'' sample_arguments =
       handle_call_tool remote_norfolk ''get_municipality_url''
         (sample_arguments(''state_abbr'' \<mapsto> JStr ''Va''))"
proof -
  have h: "lower ''va'' = lower ''Va''"
    by (simp add: eval_chars)
  show ?thesis
    using h
      state_abbr_case_invariant [where arguments = sample_arguments and remote = remote_norfolk
        and name = "''get_code_structure''", OF sample_arguments_simps(2) h]
      state_abbr_case_invariant [where arguments = sample_arguments and remote = remote_norfolk
        and name = "''get_municipality_url''", OF sample_arguments_simps(2) h]
    by blast
qed


section \<open>The product loop\<close>

lemma has_code_nameE:
  assumes "has_code_name p"
  obtains kvs product_name where "p = JObj kvs"
    and "map_of kvs ''ProductName'' = Some (JStr product_name)"
    and "contains ''code'' (lower product_name)"
proof (cases p)
  case (JObj kvs)
  show ?thesis
  proof (cases "map_of kvs ''ProductName''")
    case None
    with JObj assms show ?thesis by (simp add: has_code_name_def)
  next
    case (Some v)
    with JObj assms that show ?thesis
      by (cases v) (simp_all add: has_code_name_def)
  qed
qed (use assms in \<open>simp_all add: has_code_name_def\<close>)

lemma has_code_name_step:
  assumes "has_code_name p"
  shows "find_code_product (p # post) = Inr (Some p)"
proof -
  from assms obtain kvs product_name where "p = JObj kvs"
    and "map_of kvs ''ProductName'' = Some (JStr product_name)"
    and "contains ''code'' (lower product_name)"
    by (rule has_code_nameE)
  then show ?thesis by simp
qed

lemma no_code_name_step:
  "product_record q \<Longrightarrow> \<not> has_code_name q \<Longrightarrow>
     find_code_product (q # rest) = find_code_product rest"
  by (auto simp: has_code_name_def product_record_def lower_def split: json.splits option.splits)

lemma find_code_product_first:
  assumes "\<forall>q \<in> set pre. product_record q \<and> \<not> has_code_name q" and "has_code_name p"
  shows "find_code_product (pre @ p # post) = Inr (Some p)"
  using assms
proof (induction pre)
  case Nil
  then show ?case by (simp add: has_code_name_step del: find_code_product.simps)
next
  case (Cons q pre)
  then show ?case by (simp add: no_code_name_step del: find_code_product.simps)
qed

lemma find_code_product_Some:
  "find_code_product ps = Inr (Some p) \<Longrightarrow> has_code_name p"
proof (induction ps)
  case Nil
  then show ?case by simp
next
  case (Cons q ps)
  then show ?case
    by (auto simp: has_code_name_def get_def str_lower_def sum_bind_def lower_def
        split: json.splits option.splits if_splits sum.splits)
qed

lemma has_code_name_truthy: "has_code_name p \<Longrightarrow> truthy p"
  by (erule has_code_nameE) (auto simp: truthy_def)

lemma has_code_name_get: "has_code_name p \<Longrightarrow> \<exists>v. get p key dflt = Inr v"
  by (erule has_code_nameE) simp


lemma structure_requests:
  assumes "arguments ''municipality_name'' = Some m"
    and "arguments ''state_abbr'' = Some (JStr s)"
    and "remote (client_by_name_request m (upper s)) = Inr (JObj info)"
    and "map_of info ''ClientID'' = Some client_id"
    and "truthy client_id"
    and "remote (client_content_request client_id) = Inr (JList products)"
    and "find_code_product products = Inr (Some p)"
    and "get p ''Id'' JNull = Inr job_id"
    and "get p ''ProductID'' JNull = Inr product_id"
  shows "fst (handle_call_tool remote ''get_code_structure'' arguments) =
     [client_by_name_request m (upper s), client_content_request client_id,
      toc_children_request job_id product_id (arg_get arguments ''node_id'' (JStr ''10121''))]"
proof -
  from assms(7) have "truthy p"
    by (intro has_code_name_truthy find_code_product_Some)
  with assms show ?thesis
    by (simp add: handle_call_tool_alt handle_call_tool_body_def branch_get_code_structure_def
        get_client_by_name_def get_client_content_def get_toc_children_def io_bind_http_get
        iter_def split: sum.splits)
qed

lemma section_requests:
  assumes "arguments ''municipality_name'' = Some m"
    and "arguments ''state_abbr'' = Some (JStr s)"
    and "arguments ''node_id'' = Some n"
    and "remote (client_by_name_request m (upper s)) = Inr (JObj info)"
    and "map_of info ''ClientID'' = Some client_id"
    and "truthy client_id"
    and "remote (client_content_request client_id) = Inr (JList products)"
    and "find_code_product products = Inr (Some p)"
    and "get p ''Id'' JNull = Inr job_id"
    and "get p ''ProductID'' JNull = Inr product_id"
  shows "fst (handle_call_tool remote ''get_code_section'' arguments) =
     [client_by_name_request m (upper s), client_content_request client_id,
      codes_content_request job_id product_id n]"
proof -
  from assms(8) have "truthy p"
    by (intro has_code_name_truthy find_code_product_Some)
  with assms show ?thesis
    by (simp add: handle_call_tool_alt handle_call_tool_body_def branch_get_code_section_def
        get_client_by_name_def get_client_content_def get_codes_content_def io_bind_http_get
        iter_def split: sum.splits)
qed

lemma key_error_text: "exn_str (KeyError ''node_id'') = [CHR 0x27] @ ''node_id'' @ [CHR 0x27]"
  by (simp add: exn_str_def repr_str_def squote_def dquote_def repr_char_def backslash_def
      printable_def Let_def)

lemma section_missing_node:
  assumes "arguments ''municipality_name'' = Some m"
    and "arguments ''state_abbr'' = Some (JStr s)"
    and "arguments ''node_id'' = None"
  shows "handle_call_tool remote ''get_code_section'' arguments =
     ([], [text_content (''Error: '' @ [CHR 0x27] @ ''node_id'' @ [CHR 0x27])])"
  using assms
  by (simp add: handle_call_tool_alt handle_call_tool_body_def branch_get_code_section_def
      key_error_text)


lemma str_5: "str (JInt 5) = ''5''"
  by (simp add: str_def str_int_def str_nat.simps [of 5] digit_char_def char_of_def
      bit_Suc_0_iff)

lemma remote_norfolk_lookup:
  "remote_norfolk (client_by_name_request (JStr ''Norfolk'') (upper ''va'')) =
     Inr (JObj [(''ClientID'', JInt 5), (''ClientName'', JStr ''Norfolk'')])"
  by (simp add: remote_norfolk_def client_by_name_request_def)

lemma remote_norfolk_content:
  "remote_norfolk (client_content_request (JInt 5)) =
     Inr (JList ([zoning_product] @ code_product_1 # [code_product_2]))"
  by (simp add: remote_norfolk_def client_content_request_def str_5 MUNICODE_API_BASE_def
      zoning_product_def code_product_1_def code_product_2_def)

lemma sample_products:
  "\<forall>q \<in> set [zoning_product]. product_record q \<and> \<not> has_code_name q"
  "has_code_name code_product_1"
  "has_code_name code_product_2"
  "get code_product_1 ''Id'' JNull = Inr (JInt 7)"
  "get code_product_1 ''ProductID'' JNull = Inr (JInt 9)"
  by (simp_all add: zoning_product_def code_product_1_def code_product_2_def
      product_record_def has_code_name_def eval_chars)










section \<open>The node identifier\<close>

text \<open>
  Claim C7. Let the lookup find the municipality and the loop select a product. When the
  argument \<^verbatim>\<open>node_id\<close> is absent, \<^verbatim>\<open>get_code_structure\<close> asks for the children of node
  "10121", while \<^verbatim>\<open>get_code_section\<close> has no default: it sends no request and returns the
  text "Error: 'node_id'". When \<^verbatim>\<open>node_id\<close> is given, both tools send exactly that node
  identifier, \<^verbatim>\<open>get_code_section\<close> in its content request.
\<close>

theorem node_id_default_and_mandatory:
  assumes "arguments ''municipality_name'' = Some m"
    and "arguments ''state_abbr'' = Some (JStr s)"
    and "remote (client_by_name_request m (upper s)) = Inr (JObj info)"
    and "map_of info ''ClientID'' = Some client_id"
    and "truthy client_id"
    and "remote (client_content_request client_id) = Inr (JList products)"
    and "find_code_product products = Inr (Some p)"
    and "get p ''Id'' JNull = Inr job_id"
    and "get p ''ProductID'' JNull = Inr product_id"
  shows "(arguments ''node_id'' = None \<longrightarrow>
           fst (handle_call_tool remote ''get_code_structure'' arguments) =
             [client_by_name_request m (upper s), client_content_request client_id,
              toc_children_request job_id product_id (JStr ''10121'')]
           \<and> handle_call_tool remote ''get_code_section'' arguments =
             ([], [text_content (''Error: '' @ [CHR 0x27] @ ''node_id'' @ [CHR 0x27])]))
       \<and> (arguments ''node_id'' = Some n \<longrightarrow>
           fst (handle_call_tool remote ''get_code_structure'' arguments) =
             [client_by_name_request m (upper s), client_content_request client_id,
              toc_children_request job_id product_id n]
           \<and> fst (handle_call_tool remote ''get_code_section'' arguments) =
             [client_by_name_request m (upper s), client_content_request client_id,
              codes_content_request job_id product_id n])"
proof -
  have a: "fst (handle_call_tool remote ''get_code_structure'' arguments) =
           [client_by_name_request m (upper s), client_content_request client_id,
            toc_children_request job_id product_id
              (arg_get arguments ''node_id'' (JStr ''10121''))]"
    using assms by (rule structure_requests)
  have b: "fst (handle_call_tool remote ''get_code_section'' arguments) =
           [client_by_name_request m (upper s), client_content_request client_id,
            codes_content_request job_id product_id n]"
    if "arguments ''node_id'' = Some n"
    using assms(1,2) that assms(3-9) by (rule section_requests)
  have c: "handle_call_tool remote ''get_code_section'' arguments =
             ([], [text_content (''Error: '' @ [CHR 0x27] @ ''node_id'' @ [CHR 0x27])])"
    if "arguments ''node_id'' = None"
    using assms(1,2) that by (rule section_missing_node)
  from a b c show ?thesis
    by (auto simp: arg_get_def)
qed

theorem node_id_default_and_mandatory_witness:
  "fst (handle_call_tool remote_norfolk ''get_code_structure''
          (sample_arguments(''node_id'' := None))) =
       [client_by_name_request (JStr ''Norfolk'') ''VA'', client_content_request (JInt 5),
        toc_children_request (JInt 7) (JInt 9) (JStr ''10121'')]
   \<and> handle_call_tool remote_norfolk ''get_code_section''
          (sample_arguments(''node_id'' := None)) =
       ([], [text_content (''Error: '' @ [CHR 0x27] @ ''node_id'' @ [CHR 0x27])])
   \<and> fst (handle_call_tool remote_norfolk ''get_code_structure'' sample_arguments) =
       [client_by_name_request (JStr ''Norfolk'') ''VA'', client_content_request (JInt 5),
        toc_children_request (JInt 7) (JInt 9) (JStr ''42'')]
   \<and> fst (handle_call_tool remote_norfolk ''get_code_section'' sample_arguments) =
       [client_by_name_request (JStr ''Norfolk'') ''VA'', client_content_request (JInt 5),
        codes_content_request (JInt 7) (JInt 9) (JStr ''42'')]"
proof -
  have h4: "map_of [(''ClientID'', JInt 5), (''ClientName'', JStr ''Norfolk'')] ''ClientID''
      = Some (JInt 5)"
    by simp
  have h5: "truthy (JInt 5)"
    by (simp add: truthy_def)
  have f: "find_code_product ([zoning_product] @ code_product_1 # [code_product_2])
      = Inr (Some code_product_1)"
    using sample_products(1) sample_products(2) by (rule find_code_product_first)
  have n1: "(sample_arguments(''node_id'' := None)) ''municipality_name''
      = Some (JStr ''Norfolk'')"
    by (simp add: sample_arguments_def)
  have n2: "(sample_arguments(''node_id'' := None)) ''state_abbr'' = Some (JStr ''va'')"
    by (simp add: sample_arguments_def)
  show ?thesis
    using node_id_default_and_mandatory
      [where arguments = "sample_arguments(''node_id'' := None)" and remote = remote_norfolk,
       OF n1 n2 remote_norfolk_lookup h4 h5 remote_norfolk_content f
          sample_products(4) sample_products(5)]
      node_id_default_and_mandatory
      [where arguments = sample_arguments and remote = remote_norfolk and n = "JStr ''42''",
       OF sample_arguments_simps(1) sample_arguments_simps(2) remote_norfolk_lookup h4 h5
          remote_norfolk_content f sample_products(4) sample_products(5)]
    by (simp add: sample_arguments_simps upper_va)
qed


end
